theory Spec2Isabelle
  imports Main
begin

section \<open>Compatibility score (js/compatibility.js, class CompatibilityTester)\<close>

text \<open>
  \<^verbatim>\<open>this.results\<close> maps a feature name to an object with a \<^verbatim>\<open>supported\<close> flag. The
  scorer only reads \<^verbatim>\<open>this.results[feature]?.supported\<close>, so a result table is modelled
  as a partial map from the feature name to that flag: \<open>None\<close> stands for a missing
  entry (the optional chain yields \<^verbatim>\<open>undefined\<close>, which is falsy).
\<close>

type_synonym results = "string \<rightharpoonup> bool"

definition supported :: "results \<Rightarrow> string \<Rightarrow> bool" where
  "supported r feature = (r feature = Some True)"

text \<open>The object literal \<^verbatim>\<open>weights\<close>, in the insertion order \<^verbatim>\<open>Object.entries\<close> walks.\<close>

definition weights :: "(string \<times> int) list" where
  "weights =
     [(''browser'', 30), (''iframe'', 25), (''webgl'', 15), (''localStorage'', 10),
      (''canvas'', 10), (''fullscreen'', 5), (''serviceWorker'', 5)]"

text \<open>
  The body of the \<^verbatim>\<open>forEach\<close>: \<^verbatim>\<open>maxScore += weight\<close>, and \<^verbatim>\<open>score += weight\<close> when the
  feature is supported. The accumulator is the pair \<open>(score, maxScore)\<close>.
\<close>

fun score_loop :: "results \<Rightarrow> (string \<times> int) list \<Rightarrow> int \<times> int \<Rightarrow> int \<times> int" where
  "score_loop r [] acc = acc"
| "score_loop r ((feature, weight) # rest) (score, maxScore) =
     score_loop r rest
       (if supported r feature then score + weight else score, maxScore + weight)"

text \<open>\<^verbatim>\<open>weights.browser\<close>: the property read of a key the literal holds.\<close>

definition weights_browser :: int where
  "weights_browser = (case map_of weights ''browser'' of Some w \<Rightarrow> w | None \<Rightarrow> 0)"

text \<open>
  \<^verbatim>\<open>Math.round((score / maxScore) * 100)\<close> for a positive \<open>maxScore\<close>.
  \<^verbatim>\<open>Math.round\<close> rounds to the nearest integer, a tie going up, which is
  \<open>\<lfloor>x + 1/2\<rfloor>\<close>; over the exact quotient that is the integer division below. (The
  source computes in binary floating point; for the integers that occur here, at most a
  few hundred, the rounded result is the same.)
\<close>

definition round_percent :: "int \<Rightarrow> int \<Rightarrow> int" where
  "round_percent score maxScore = (200 * score + maxScore) div (2 * maxScore)"

definition calculateCompatibilityScore :: "results \<Rightarrow> int" where
  "calculateCompatibilityScore r =
     (let (score, maxScore) = score_loop r weights (0, 0);
          score = (if supported r ''browser'' then score + weights_browser else score)
      in round_percent score maxScore)"

text \<open>The points of the six features other than the browser, as the loop adds them.\<close>

definition other_features_score :: "results \<Rightarrow> int" where
  "other_features_score r =
     sum_list (map (\<lambda>(feature, weight). if supported r feature then weight else 0) (tl weights))"

section \<open>Guide search (js/guide.js, GuideController.searchContent)\<close>

text \<open>
  An entry of \<^verbatim>\<open>this.searchIndex\<close>, as \<^verbatim>\<open>buildSearchIndex\<close> pushes it, and a search
  result \<^verbatim>\<open>{ ...item, score }\<close>. Strings are byte strings here: the model covers ASCII
  text, where a JavaScript string's length and its characters are the bytes. The field
  \<^verbatim>\<open>keywords\<close> is written \<open>keywords'\<close>, the plain name being reserved.
\<close>

record index_item =
  item_id :: string
  title :: string
  content :: string
  keywords' :: "string list"

record search_result = index_item +
  score :: int

text \<open>\<^verbatim>\<open>String.prototype.includes\<close>: the argument occurs as a contiguous substring.\<close>

fun starts_with :: "string \<Rightarrow> string \<Rightarrow> bool" where
  "starts_with s [] = True"
| "starts_with [] (q # qs) = False"
| "starts_with (c # cs) (q # qs) = (c = q \<and> starts_with cs qs)"

fun includes_str :: "string \<Rightarrow> string \<Rightarrow> bool" where
  "includes_str [] q = (q = [])"
| "includes_str (c # cs) q = (starts_with (c # cs) q \<or> includes_str cs q)"

text \<open>\<^verbatim>\<open>query.split(' ')\<close>: the pieces between separators, empty pieces kept.\<close>

fun split_on :: "char \<Rightarrow> string \<Rightarrow> string list" where
  "split_on sep [] = [[]]"
| "split_on sep (c # cs) =
     (if c = sep then [] # split_on sep cs
      else (case split_on sep cs of
              [] \<Rightarrow> [[c]]
            | w # ws \<Rightarrow> (c # w) # ws))"

text \<open>\<^verbatim>\<open>toLowerCase\<close> on ASCII text: the letters A to Z move to a to z.\<close>

definition lower_char :: "char \<Rightarrow> char" where
  "lower_char c =
     (if 65 \<le> (of_char c :: nat) \<and> (of_char c :: nat) \<le> 90
      then char_of (of_char c + 32 :: nat) else c)"

definition toLowerCase :: "string \<Rightarrow> string" where
  "toLowerCase s = map lower_char s"

text \<open>
  The inner \<^verbatim>\<open>queryWords.forEach\<close>: what one query word adds to the running score of
  an item.
\<close>

definition add_word_score :: "index_item \<Rightarrow> int \<Rightarrow> string \<Rightarrow> int" where
  "add_word_score item sc word =
     (let sc = (if word \<in> set (keywords' item) then sc + 5 else sc);
          sc = (if includes_str (toLowerCase (title item)) word then sc + 3 else sc);
          sc = (if includes_str (content item) word then sc + 1 else sc)
      in sc)"

definition item_score :: "string \<Rightarrow> string list \<Rightarrow> index_item \<Rightarrow> int" where
  "item_score query queryWords item =
     (let sc = (if includes_str (toLowerCase (title item)) query then 10 else 0)
      in foldl (add_word_score item) sc queryWords)"

text \<open>
  The outer \<^verbatim>\<open>searchIndex.forEach\<close>: an item is pushed, with its score, when the score
  is positive.
\<close>

fun collect_results :: "string \<Rightarrow> string list \<Rightarrow> index_item list \<Rightarrow> search_result list" where
  "collect_results query queryWords [] = []"
| "collect_results query queryWords (item # items) =
     (let sc = item_score query queryWords item
      in if sc > 0
         then index_item.extend item \<lparr>score = sc\<rparr> # collect_results query queryWords items
         else collect_results query queryWords items)"

text \<open>
  \<^verbatim>\<open>results.sort((a, b) => b.score - a.score).slice(0, 8)\<close>. \<^verbatim>\<open>Array.prototype.sort\<close> is
  stable, and the comparator orders by decreasing score: that is the stable insertion
  sort on the key \<open>- score\<close>. \<^verbatim>\<open>slice(0, 8)\<close> keeps the first eight.
\<close>

definition searchContent :: "index_item list \<Rightarrow> string \<Rightarrow> search_result list" where
  "searchContent searchIndex query =
     (let queryWords = filter (\<lambda>word. length word > 2) (split_on (CHR '' '') query);
          results = collect_results query queryWords searchIndex
      in take 8 (sort_key (\<lambda>r. - score r) results))"

text \<open>A two-section index, to run the search on.\<close>

definition sample_index :: "index_item list" where
  "sample_index =
     [\<lparr>item_id = ''basics'', title = ''Getting Started'',
       content = ''click harvey to earn money'', keywords' = [''harvey'', ''money'']\<rparr>,
      \<lparr>item_id = ''endings'', title = ''Moral Endings'',
       content = ''every moral choice changes the ending'', keywords' = [''moral'', ''ending'']\<rparr>]"

section \<open>Upgrade path calculator (js/guide.js, GuideController.simulateUpgradePath)\<close>

text \<open>
  Numbers are integers here: the calculator's inputs come from \<^verbatim>\<open>parseInt\<close>, and costs,
  earnings and moral values are integer literals. \<^verbatim>\<open>NaN\<close>, the infinities and
  fractions are outside the model; where the source would produce one (a division by
  zero earnings) the model stops with \<open>NotFinite\<close>.
\<close>

record upgrade_row =
  name :: string
  cost :: int
  earnings :: int
  moral :: int

text \<open>The array literal \<^verbatim>\<open>upgrades\<close> of \<^verbatim>\<open>calculateUpgradePath\<close>.\<close>

definition upgrades :: "upgrade_row list" where
  "upgrades =
     [\<lparr>name = ''Basic Touch'', cost = 0, earnings = 1, moral = 0\<rparr>,
      \<lparr>name = ''Pet'', cost = 100, earnings = 2, moral = - 5\<rparr>,
      \<lparr>name = ''Kiss'', cost = 500, earnings = 5, moral = - 10\<rparr>,
      \<lparr>name = ''Touch'', cost = 1500, earnings = 15, moral = - 20\<rparr>,
      \<lparr>name = ''Embrace'', cost = 3000, earnings = 30, moral = - 25\<rparr>,
      \<lparr>name = ''Caress'', cost = 6000, earnings = 60, moral = - 30\<rparr>,
      \<lparr>name = ''Special'', cost = 10000, earnings = 100, moral = - 40\<rparr>]"

text \<open>
  An entry pushed on \<^verbatim>\<open>path\<close>; its \<^verbatim>\<open>cost\<close> field is written \<open>path_cost\<close>, apart from
  the upgrade's.
\<close>

record path_entry =
  upgrade :: string
  path_cost :: int
  moralImpact :: int
  newMoralScore :: int

datatype js_fault =
  UndefinedRead  \<comment> \<open>TypeError: a property read on \<^verbatim>\<open>undefined\<close> (an index outside the array)\<close>
| NotFinite      \<comment> \<open>the run leaves the integers (division by zero earnings)\<close>

text \<open>\<^verbatim>\<open>upgrades[i]\<close>: \<^verbatim>\<open>undefined\<close> (here \<open>None\<close>) outside the array.\<close>

definition js_index :: "'a list \<Rightarrow> int \<Rightarrow> 'a option" where
  "js_index xs i = (if 0 \<le> i \<and> i < int (length xs) then Some (xs ! nat i) else None)"

text \<open>\<^verbatim>\<open>Math.ceil(a / b)\<close> for integers, \<open>b \<noteq> 0\<close>: the least integer not below the quotient.\<close>

definition ceil_div :: "int \<Rightarrow> int \<Rightarrow> int" where
  "ceil_div a b = - ((- a) div b)"

text \<open>\<^verbatim>\<open>Math.round(totalClicks / 10)\<close>: to the nearest integer, a tie going up.\<close>

definition round_tenth :: "int \<Rightarrow> int" where
  "round_tenth n = (2 * n + 10) div 20"

definition getEndingType :: "int \<Rightarrow> string" where
  "getEndingType moralScore =
     (if moralScore \<ge> 60 then ''High Morality''
      else if moralScore \<ge> 30 then ''Medium Morality''
      else ''Low Morality'')"

text \<open>
  The first loop, \<^verbatim>\<open>for (let i = 1; i <= currentUpgrade; i++) moralScore += upgrades[i].moral\<close>,
  over the indices it visits.
\<close>

fun moral_penalty :: "upgrade_row list \<Rightarrow> int list \<Rightarrow> int \<Rightarrow> js_fault + int" where
  "moral_penalty ups [] moralScore = Inr moralScore"
| "moral_penalty ups (i # rest) moralScore =
     (case js_index ups i of
        None \<Rightarrow> Inl UndefinedRead
      | Some u \<Rightarrow> moral_penalty ups rest (moralScore + moral u))"

text \<open>
  The \<^verbatim>\<open>while\<close> loop. Its variables are the last five arguments; the result is the
  values of \<^verbatim>\<open>money\<close>, \<^verbatim>\<open>totalClicks\<close>, \<^verbatim>\<open>moralScore\<close> and \<^verbatim>\<open>path\<close> when the loop is
  left. The function is partial: \<open>None\<close> is a loop that never ends.
\<close>

partial_function (option) simulate_loop ::
  "int \<Rightarrow> int \<Rightarrow> upgrade_row list \<Rightarrow> int \<Rightarrow> int \<Rightarrow> int \<Rightarrow> int \<Rightarrow> path_entry list
   \<Rightarrow> (js_fault + int \<times> int \<times> int \<times> path_entry list) option" where
  "simulate_loop target maxUpgrade ups money currentUpgrade totalClicks moralScore path =
     (if money < target \<and> currentUpgrade \<le> maxUpgrade then
        (case js_index ups currentUpgrade of
           None \<Rightarrow> Some (Inl UndefinedRead)
         | Some current \<Rightarrow>
             (let currentEarnings = earnings current in
              if currentUpgrade < maxUpgrade \<and> currentUpgrade < int (length ups) - 1 then
                (case js_index ups (currentUpgrade + 1) of
                   None \<Rightarrow> Some (Inl UndefinedRead)
                 | Some nextUpgrade \<Rightarrow>
                     (let moneyNeeded = cost nextUpgrade - money in
                      if moneyNeeded > 0 \<and> currentEarnings = 0 then Some (Inl NotFinite)
                      else
                        (let (money, totalClicks) =
                               (if moneyNeeded > 0
                                then (let clicksNeeded = ceil_div moneyNeeded currentEarnings
                                      in (money + clicksNeeded * currentEarnings,
                                          totalClicks + clicksNeeded))
                                else (money, totalClicks))
                         in if money \<ge> cost nextUpgrade
                            then simulate_loop target maxUpgrade ups money (currentUpgrade + 1)
                                   totalClicks (moralScore + moral nextUpgrade)
                                   (path @ [\<lparr>upgrade = name nextUpgrade,
                                             path_cost = cost nextUpgrade,
                                             moralImpact = moral nextUpgrade,
                                             newMoralScore = moralScore + moral nextUpgrade\<rparr>])
                            else simulate_loop target maxUpgrade ups money currentUpgrade
                                   totalClicks moralScore path)))
              else if currentEarnings = 0 then Some (Inl NotFinite)
              else
                (let remainingMoney = target - money;
                     finalClicks = ceil_div remainingMoney currentEarnings
                 in Some (Inr (target, totalClicks + finalClicks, moralScore, path)))))
      else Some (Inr (money, totalClicks, moralScore, path)))"

declare simulate_loop.simps [code]

text \<open>The object \<^verbatim>\<open>simulateUpgradePath\<close> returns.\<close>

record simulation =
  success :: bool
  totalClicks :: int
  finalMoral :: int
  path :: "path_entry list"
  estimatedTime :: int
  endingType :: string

definition simulateUpgradePath ::
  "int \<Rightarrow> int \<Rightarrow> int \<Rightarrow> int \<Rightarrow> upgrade_row list \<Rightarrow> (js_fault + simulation) option" where
  "simulateUpgradePath target startMoney startUpgrade maxUpgrade ups =
     (case moral_penalty ups [1..startUpgrade] 100 of
        Inl fault \<Rightarrow> Some (Inl fault)
      | Inr moralScore \<Rightarrow>
          (case simulate_loop target maxUpgrade ups startMoney startUpgrade 0 moralScore [] of
             None \<Rightarrow> None
           | Some (Inl fault) \<Rightarrow> Some (Inl fault)
           | Some (Inr (money, clicks, moralScore, steps)) \<Rightarrow>
               Some (Inr \<lparr>success = (money \<ge> target),
                          totalClicks = clicks,
                          finalMoral = moralScore,
                          path = steps,
                          estimatedTime = round_tenth clicks,
                          endingType = getEndingType moralScore\<rparr>)))"

section \<open>Embed lifecycle controller (js/compatibility.js, class GameEmbedHandler)\<close>

subsection \<open>JavaScript values\<close>

text \<open>
  The payload of a message and the arguments handed on from it are JavaScript values.
  Numbers are integers here; \<^verbatim>\<open>NaN\<close> and fractions are outside the model. An object is
  the list of its properties, with distinct keys.
\<close>

datatype jsval =
  JUndefined
| JNull
| JBool bool
| JNum int
| JStr string
| JArr "jsval list"
| JObj "(string \<times> jsval) list"

text \<open>Truthiness, as \<^verbatim>\<open>||\<close> and \<^verbatim>\<open>if\<close> test it.\<close>

fun truthy :: "jsval \<Rightarrow> bool" where
  "truthy JUndefined = False"
| "truthy JNull = False"
| "truthy (JBool b) = b"
| "truthy (JNum n) = (n \<noteq> 0)"
| "truthy (JStr s) = (s \<noteq> [])"
| "truthy (JArr vs) = True"
| "truthy (JObj kvs) = True"

text \<open>\<^verbatim>\<open>a || b\<close>.\<close>

definition js_or :: "jsval \<Rightarrow> jsval \<Rightarrow> jsval" where
  "js_or a b = (if truthy a then a else b)"

text \<open>
  A property read \<^verbatim>\<open>v.p\<close> throws a TypeError on \<^verbatim>\<open>undefined\<close> and \<^verbatim>\<open>null\<close>; on every other
  value it yields the property, or \<^verbatim>\<open>undefined\<close> when there is none. (The properties
  read by the controller are \<^verbatim>\<open>type\<close>, \<^verbatim>\<open>message\<close>, \<^verbatim>\<open>stage\<close>, \<^verbatim>\<open>ending\<close> and
  \<^verbatim>\<open>finalScore\<close>: none is a built-in property of a string, number or array.)
\<close>

fun is_nullish :: "jsval \<Rightarrow> bool" where
  "is_nullish JUndefined = True"
| "is_nullish JNull = True"
| "is_nullish v = False"

fun read_prop :: "string \<Rightarrow> jsval \<Rightarrow> jsval" where
  "read_prop p (JObj kvs) = (case map_of kvs p of Some v \<Rightarrow> v | None \<Rightarrow> JUndefined)"
| "read_prop p v = JUndefined"

subsection \<open>Collaborators, faults and observable effects\<close>

text \<open>
  The two methods of \<^verbatim>\<open>window.loveMoneyApp\<close> the controller calls. The status texts of
  the source (literals with an emoji) are named by constructors: \<open>LoadingGame\<close> is
  "Loading game...", \<open>RetryingText n m\<close> is "Retrying... (n/m)", \<open>FailedToLoadGame\<close> is
  "Failed to load game", \<open>GameLoadedOk\<close> is "Game loaded successfully!". The label of
  \<^verbatim>\<open>trackEvent\<close> is \<open>JUndefined\<close> when the call passes none.
\<close>

datatype status_kind = KLoading | KSuccess | KError | KWarning | KInfo

datatype status_text = LoadingGame | RetryingText nat nat | FailedToLoadGame | GameLoadedOk

datatype call =
  UpdateStatus status_text status_kind
| TrackEvent string string jsval

datatype exn =
  TypeError
| SyntaxError
| CollaboratorFault call

datatype console_line =
  GameLoadError jsval        \<comment> \<open>\<^verbatim>\<open>console.error('Game load error:', errorMessage)\<close>\<close>
| RetryingGameLoad nat nat   \<comment> \<open>\<^verbatim>\<open>console.log(`Retrying game load (n/m)`)\<close>\<close>
| UnknownMessage jsval       \<comment> \<open>\<^verbatim>\<open>console.log('Unknown message from game:', data)\<close>\<close>
| ErrorParsingMessage exn    \<comment> \<open>\<^verbatim>\<open>console.log('Error parsing message from game:', e)\<close>\<close>

datatype effect =
  Console console_line
| Called call

text \<open>
  A collaborator is any object with these two methods. What the controller can see of a
  call is whether it returns or throws; that may depend on the call and on everything
  that happened before, so a collaborator is a predicate "this call throws" over the
  history and the call. \<open>None\<close> in the environment is an undefined
  \<^verbatim>\<open>window.loveMoneyApp\<close>. \<^verbatim>\<open>JSON.parse\<close> is the environment's too: \<open>None\<close> is a
  SyntaxError.
\<close>

type_synonym collaborator = "effect list \<Rightarrow> call \<Rightarrow> bool"

record env =
  loveMoneyApp :: "collaborator option"
  json_parse :: "string \<Rightarrow> jsval option"

text \<open>
  The application object of this repository (class \<^verbatim>\<open>LoveMoneyApp\<close>): its
  \<^verbatim>\<open>updateStatus\<close> writes the status bar through optional chains and its \<^verbatim>\<open>trackEvent\<close>
  logs one line, so neither throws.
\<close>

definition LoveMoneyApp :: collaborator where
  "LoveMoneyApp history c = False"

definition page_env :: "(string \<Rightarrow> jsval option) \<Rightarrow> env" where
  "page_env parse = \<lparr>loveMoneyApp = Some LoveMoneyApp, json_parse = parse\<rparr>"

subsection \<open>The page and the handler's fields\<close>

record iframe_el =
  src :: string
  loading :: bool   \<comment> \<open>the class \<^verbatim>\<open>loading\<close>\<close>
  loaded :: bool    \<comment> \<open>the class \<^verbatim>\<open>loaded\<close>\<close>

datatype overlay_html =
  PageMarkup                 \<comment> \<open>what the page came with\<close>
| LoadingContent             \<comment> \<open>written by \<^verbatim>\<open>showLoadingState\<close>\<close>
| RetryContent nat nat       \<comment> \<open>"Attempt n of m", written by \<^verbatim>\<open>showRetryState\<close>\<close>
| GameErrorContent jsval     \<comment> \<open>"Game Loading Failed" with the message shown\<close>

record overlay_el =
  hidden :: bool             \<comment> \<open>the class \<^verbatim>\<open>hidden\<close>\<close>
  innerHTML :: overlay_html

text \<open>
  The completion modal, with the two values its template interpolates: the ending and
  the final score shown.
\<close>

datatype modal = CompletionModal jsval jsval

text \<open>The functions handed to \<^verbatim>\<open>setTimeout\<close>, one constructor for each arrow function.\<close>

datatype callback =
  LoadTimeoutCb              \<comment> \<open>in \<^verbatim>\<open>startLoadTimeout\<close>\<close>
| LoadSettledCb              \<comment> \<open>in \<^verbatim>\<open>onIframeLoad\<close>\<close>
| HideStatusCb               \<comment> \<open>in \<^verbatim>\<open>onGameLoadSuccess\<close>\<close>
| HideOverlayCb              \<comment> \<open>in \<^verbatim>\<open>hideLoadingOverlay\<close>\<close>
| RetryReloadCb              \<comment> \<open>the outer one in \<^verbatim>\<open>retryLoad\<close>\<close>
| RetryRestoreCb string      \<comment> \<open>the inner one in \<^verbatim>\<open>retryLoad\<close>, closing over \<^verbatim>\<open>currentSrc\<close>\<close>
| RemoveModalCb nat          \<comment> \<open>in \<^verbatim>\<open>showGameComplete\<close>, closing over the modal\<close>

text \<open>
  The fields of \<^verbatim>\<open>GameEmbedHandler\<close>, followed by the part of the page the handler
  acts on: the active timers (identifier, delay, callback), the next timer identifier,
  the status bar (\<open>Some d\<close> when the element exists, \<open>d\<close> for \<^verbatim>\<open>display: none\<close>), the
  modals appended to the document body, and the effects observed so far.
\<close>

record handler =
  iframe :: "iframe_el option"
  loadingOverlay :: "overlay_el option"
  gameLoaded :: bool
  retryCount :: nat
  maxRetries :: nat
  loadTimeout :: "nat option"
  loadTimeoutDuration :: nat
  timers :: "(nat \<times> nat \<times> callback) list"
  nextTimerId :: nat
  statusBar :: "bool option"
  body :: "(nat \<times> modal) list"
  nextNode :: nat
  effects :: "effect list"

subsection \<open>Statements that may throw\<close>

text \<open>
  A method of the handler takes the state and returns the state it leaves, with the
  exception that escaped it, if any. What was assigned before a throw stays assigned.
\<close>

type_synonym cmd = "handler \<Rightarrow> handler \<times> exn option"

definition skip :: cmd where
  "skip s = (s, None)"

definition stmt :: "(handler \<Rightarrow> handler) \<Rightarrow> cmd" where
  "stmt f s = (f s, None)"

definition throw :: "exn \<Rightarrow> cmd" where
  "throw e s = (s, Some e)"

text \<open>Statements in sequence: the first throw ends the block.\<close>

fun block :: "cmd list \<Rightarrow> cmd" where
  "block [] s = (s, None)"
| "block (c # cs) s =
     (case c s of
        (s', None) \<Rightarrow> block cs s'
      | (s', Some e) \<Rightarrow> (s', Some e))"

definition cond :: "(handler \<Rightarrow> bool) \<Rightarrow> cmd \<Rightarrow> cmd \<Rightarrow> cmd" where
  "cond b c1 c2 s = (if b s then c1 s else c2 s)"

definition try_catch :: "cmd \<Rightarrow> (exn \<Rightarrow> cmd) \<Rightarrow> cmd" where
  "try_catch c h s =
     (case c s of
        (s', None) \<Rightarrow> (s', None)
      | (s', Some e) \<Rightarrow> h e s')"

definition console :: "console_line \<Rightarrow> handler \<Rightarrow> handler" where
  "console l s = s\<lparr>effects := effects s @ [Console l]\<rparr>"

text \<open>
  A method call on \<^verbatim>\<open>window.loveMoneyApp\<close>: the call is observed, then it returns or
  throws as the collaborator decides. (The source guards every call by
  \<^verbatim>\<open>if (window.loveMoneyApp)\<close>, which is \<open>appPresent\<close>.)
\<close>

definition appPresent :: "env \<Rightarrow> handler \<Rightarrow> bool" where
  "appPresent E s = (loveMoneyApp E \<noteq> None)"

definition invoke :: "env \<Rightarrow> call \<Rightarrow> cmd" where
  "invoke E c s =
     (case loveMoneyApp E of
        None \<Rightarrow> (s, Some TypeError)
      | Some app \<Rightarrow>
          (s\<lparr>effects := effects s @ [Called c]\<rparr>,
           if app (effects s) c then Some (CollaboratorFault c) else None))"

subsection \<open>Timers\<close>

text \<open>
  \<^verbatim>\<open>setTimeout\<close> returns a fresh identifier and \<^verbatim>\<open>clearTimeout\<close> cancels the timer with
  the identifier given, if it is still active. Identifiers are positive and handed out
  in increasing order, as browsers do, so none is used twice.
\<close>

definition setTimeout :: "callback \<Rightarrow> nat \<Rightarrow> handler \<Rightarrow> nat \<times> handler" where
  "setTimeout cb delay s =
     (nextTimerId s,
      s\<lparr>timers := timers s @ [(nextTimerId s, delay, cb)], nextTimerId := Suc (nextTimerId s)\<rparr>)"

definition clearTimeout :: "nat \<Rightarrow> handler \<Rightarrow> handler" where
  "clearTimeout i s = s\<lparr>timers := filter (\<lambda>t. fst t \<noteq> i) (timers s)\<rparr>"

text \<open>\<^verbatim>\<open>if (this.loadTimeout)\<close> is the truthiness of a number or \<^verbatim>\<open>null\<close>.\<close>

definition clearLoadTimeout :: "handler \<Rightarrow> handler" where
  "clearLoadTimeout s =
     (case loadTimeout s of
        None \<Rightarrow> s
      | Some i \<Rightarrow> if i \<noteq> 0 then (clearTimeout i s)\<lparr>loadTimeout := None\<rparr> else s)"

definition startLoadTimeout :: "handler \<Rightarrow> handler" where
  "startLoadTimeout s =
     (let s = clearLoadTimeout s;
          (i, s) = setTimeout LoadTimeoutCb (loadTimeoutDuration s) s
      in s\<lparr>loadTimeout := Some i\<rparr>)"

subsection \<open>The methods of the handler\<close>

text \<open>The guards \<^verbatim>\<open>if (this.loadingOverlay) { ... }\<close> and \<^verbatim>\<open>if (this.iframe) { ... }\<close>.\<close>

definition if_overlay :: "(overlay_el \<Rightarrow> overlay_el) \<Rightarrow> handler \<Rightarrow> handler" where
  "if_overlay f s =
     (case loadingOverlay s of
        None \<Rightarrow> s
      | Some ov \<Rightarrow> s\<lparr>loadingOverlay := Some (f ov)\<rparr>)"

definition if_iframe :: "(iframe_el \<Rightarrow> iframe_el) \<Rightarrow> handler \<Rightarrow> handler" where
  "if_iframe f s =
     (case iframe s of
        None \<Rightarrow> s
      | Some fr \<Rightarrow> s\<lparr>iframe := Some (f fr)\<rparr>)"

definition showLoadingState :: "env \<Rightarrow> cmd" where
  "showLoadingState E =
     block
       [stmt (if_overlay (\<lambda>ov. ov\<lparr>hidden := False, innerHTML := LoadingContent\<rparr>)),
        stmt (if_iframe (\<lambda>fr. fr\<lparr>loading := True, loaded := False\<rparr>)),
        cond (appPresent E) (invoke E (UpdateStatus LoadingGame KLoading)) skip]"

definition showRetryState :: "env \<Rightarrow> cmd" where
  "showRetryState E =
     block
       [stmt (\<lambda>s. if_overlay
                 (\<lambda>ov. ov\<lparr>hidden := False,
                           innerHTML := RetryContent (retryCount s) (maxRetries s)\<rparr>) s),
        cond (appPresent E)
          (\<lambda>s. invoke E (UpdateStatus (RetryingText (retryCount s) (maxRetries s)) KLoading) s)
          skip]"

definition showGameError :: "env \<Rightarrow> jsval \<Rightarrow> cmd" where
  "showGameError E errorMessage =
     block
       [stmt (if_overlay
          (\<lambda>ov. ov\<lparr>hidden := False,
                    innerHTML := GameErrorContent
                      (js_or errorMessage
                         (JStr ''Unable to load the LoveMoney game. Please check your internet connection and try again.''))\<rparr>)),
        cond (appPresent E) (invoke E (UpdateStatus FailedToLoadGame KError)) skip]"

definition showGameLoaded :: "handler \<Rightarrow> handler" where
  "showGameLoaded = if_iframe (\<lambda>fr. fr\<lparr>loading := False, loaded := True\<rparr>)"

definition hideLoadingOverlay :: "handler \<Rightarrow> handler" where
  "hideLoadingOverlay s =
     (if loadingOverlay s \<noteq> None then snd (setTimeout HideOverlayCb 500 s) else s)"

definition onGameLoadSuccess :: "env \<Rightarrow> cmd" where
  "onGameLoadSuccess E =
     cond gameLoaded skip
       (block
          [stmt (\<lambda>s. s\<lparr>gameLoaded := True\<rparr>),
           stmt (\<lambda>s. s\<lparr>retryCount := 0\<rparr>),
           stmt hideLoadingOverlay,
           stmt showGameLoaded,
           cond (appPresent E)
             (block
                [invoke E (TrackEvent ''Game'' ''load_success'' JUndefined),
                 invoke E (UpdateStatus GameLoadedOk KSuccess)])
             skip,
           stmt (\<lambda>s. snd (setTimeout HideStatusCb 3000 s))])"

definition retryLoad :: "env \<Rightarrow> cmd" where
  "retryLoad E =
     block
       [stmt (\<lambda>s. s\<lparr>retryCount := retryCount s + 1\<rparr>),
        stmt (\<lambda>s. console (RetryingGameLoad (retryCount s) (maxRetries s)) s),
        showRetryState E,
        stmt (\<lambda>s. snd (setTimeout RetryReloadCb 2000 s))]"

definition onGameLoadError :: "env \<Rightarrow> jsval \<Rightarrow> cmd" where
  "onGameLoadError E errorMessage =
     block
       [stmt (console (GameLoadError errorMessage)),
        cond (\<lambda>s. retryCount s < maxRetries s)
          (retryLoad E)
          (showGameError E errorMessage),
        cond (appPresent E) (invoke E (TrackEvent ''Game'' ''load_error'' errorMessage)) skip]"

text \<open>
  \<^verbatim>\<open>onIframeLoad\<close> cancels the wait and schedules the success handler after one second;
  the scheduled function calls \<^verbatim>\<open>onGameLoadSuccess\<close> in both branches of its test.
\<close>

definition onIframeLoad :: "handler \<Rightarrow> handler" where
  "onIframeLoad s = snd (setTimeout LoadSettledCb 1000 (clearLoadTimeout s))"

definition onIframeError :: "env \<Rightarrow> cmd" where
  "onIframeError E =
     block [stmt clearLoadTimeout, onGameLoadError E (JStr ''Iframe failed to load'')]"

definition onLoadTimeout :: "env \<Rightarrow> cmd" where
  "onLoadTimeout E = onGameLoadError E (JStr ''Game loading timed out'')"

definition onSrcChange :: "env \<Rightarrow> cmd" where
  "onSrcChange E =
     block
       [stmt (\<lambda>s. s\<lparr>gameLoaded := False\<rparr>),
        stmt (\<lambda>s. s\<lparr>retryCount := 0\<rparr>),
        showLoadingState E,
        stmt startLoadTimeout]"

text \<open>
  \<^verbatim>\<open>forceReload\<close>; the argument is the decimal text of \<^verbatim>\<open>Date.now()\<close>.
\<close>

definition forceReload :: "env \<Rightarrow> string \<Rightarrow> cmd" where
  "forceReload E timestamp =
     block
       [stmt (\<lambda>s. s\<lparr>retryCount := 0\<rparr>),
        stmt (\<lambda>s. s\<lparr>gameLoaded := False\<rparr>),
        showLoadingState E,
        stmt (\<lambda>s. if iframe s \<noteq> None
                  then startLoadTimeout
                         (if_iframe
                            (\<lambda>fr. fr\<lparr>src := ''https://lovemoneygame.io/lovemoney.embed?t='' @ timestamp\<rparr>)
                            s)
                  else s),
        cond (appPresent E) (invoke E (TrackEvent ''Game'' ''force_reload'' JUndefined)) skip]"

definition handleGameProgress :: "env \<Rightarrow> jsval \<Rightarrow> cmd" where
  "handleGameProgress E d =
     cond (appPresent E) (invoke E (TrackEvent ''Game'' ''progress'' (read_prop ''stage'' d))) skip"

text \<open>
  \<^verbatim>\<open>showGameComplete\<close> appends a modal showing \<^verbatim>\<open>data.ending || 'Unknown'\<close> and
  \<^verbatim>\<open>data.finalScore || 'N/A'\<close>, and schedules its removal.
\<close>

definition showGameComplete :: "jsval \<Rightarrow> handler \<Rightarrow> handler" where
  "showGameComplete d s =
     (let node = nextNode s;
          completionModal =
            CompletionModal (js_or (read_prop ''ending'' d) (JStr ''Unknown''))
                            (js_or (read_prop ''finalScore'' d) (JStr ''N/A''));
          s = s\<lparr>body := body s @ [(node, completionModal)], nextNode := Suc node\<rparr>
      in snd (setTimeout (RemoveModalCb node) 30000 s))"

definition handleGameComplete :: "env \<Rightarrow> jsval \<Rightarrow> cmd" where
  "handleGameComplete E d =
     block
       [cond (appPresent E) (invoke E (TrackEvent ''Game'' ''complete'' (read_prop ''ending'' d))) skip,
        stmt (showGameComplete d)]"

subsection \<open>Messages from the embed\<close>

record message_event =
  origin :: string
  data :: jsval

definition embed_origin :: string where
  "embed_origin = ''https://lovemoneygame.io''"

text \<open>The \<^verbatim>\<open>switch (data.type)\<close>: the cases compare with \<^verbatim>\<open>===\<close>.\<close>

definition dispatch :: "env \<Rightarrow> jsval \<Rightarrow> cmd" where
  "dispatch E d =
     (let ty = read_prop ''type'' d in
      if ty = JStr ''gameLoaded'' then onGameLoadSuccess E
      else if ty = JStr ''gameError'' then onGameLoadError E (read_prop ''message'' d)
      else if ty = JStr ''gameProgress'' then handleGameProgress E d
      else if ty = JStr ''gameComplete'' then handleGameComplete E d
      else stmt (console (UnknownMessage d)))"

text \<open>
  \<^verbatim>\<open>handleIframeMessage\<close>. Inside the \<^verbatim>\<open>try\<close>: a string payload goes through
  \<^verbatim>\<open>JSON.parse\<close>, which may throw (\<open>parse_data\<close> is the conditional expression
  \<^verbatim>\<open>typeof event.data === 'string' ? JSON.parse(event.data) : event.data\<close>), and reading \<^verbatim>\<open>data.type\<close> throws on \<^verbatim>\<open>null\<close> and
  \<^verbatim>\<open>undefined\<close>. The \<^verbatim>\<open>catch\<close> logs whatever was thrown.
\<close>

definition parse_data :: "env \<Rightarrow> jsval \<Rightarrow> jsval option" where
  "parse_data E v = (case v of JStr payload \<Rightarrow> json_parse E payload | _ \<Rightarrow> Some v)"

definition handleIframeMessage :: "env \<Rightarrow> message_event \<Rightarrow> cmd" where
  "handleIframeMessage E ev =
     (if origin ev \<noteq> embed_origin then skip
      else
        try_catch
          (case parse_data E (data ev) of
             None \<Rightarrow> throw SyntaxError
           | Some d \<Rightarrow> if is_nullish d then throw TypeError else dispatch E d)
          (\<lambda>e. stmt (console (ErrorParsingMessage e))))"

subsection \<open>Timer callbacks and events\<close>

definition run_callback :: "env \<Rightarrow> callback \<Rightarrow> cmd" where
  "run_callback E cb =
     (case cb of
        LoadTimeoutCb \<Rightarrow> cond (\<lambda>s. \<not> gameLoaded s) (onLoadTimeout E) skip
      | LoadSettledCb \<Rightarrow> onGameLoadSuccess E
      | HideStatusCb \<Rightarrow> stmt (\<lambda>s. s\<lparr>statusBar := map_option (\<lambda>d. True) (statusBar s)\<rparr>)
      | HideOverlayCb \<Rightarrow>
          (\<lambda>s. case loadingOverlay s of
                 None \<Rightarrow> (s, Some TypeError)
               | Some ov \<Rightarrow> (s\<lparr>loadingOverlay := Some (ov\<lparr>hidden := True\<rparr>)\<rparr>, None))
      | RetryReloadCb \<Rightarrow>
          stmt (\<lambda>s. case iframe s of
                      None \<Rightarrow> s
                    | Some fr \<Rightarrow>
                        (let currentSrc = src fr;
                             s = s\<lparr>iframe := Some (fr\<lparr>src := []\<rparr>)\<rparr>
                         in snd (setTimeout (RetryRestoreCb currentSrc) 100 s)))
      | RetryRestoreCb currentSrc \<Rightarrow>
          (\<lambda>s. case iframe s of
                 None \<Rightarrow> (s, Some TypeError)
               | Some fr \<Rightarrow>
                   (startLoadTimeout (s\<lparr>iframe := Some (fr\<lparr>src := currentSrc\<rparr>)\<rparr>), None))
      | RemoveModalCb node \<Rightarrow> stmt (\<lambda>s. s\<lparr>body := filter (\<lambda>m. fst m \<noteq> node) (body s)\<rparr>))"

text \<open>
  The events the browser delivers. The listeners for the iframe, for messages and for
  changes of the \<^verbatim>\<open>src\<close> attribute are registered by \<^verbatim>\<open>init\<close> only when the iframe
  exists. The mutation observer's callback is an event of its own here, \<open>SrcChanged\<close>:
  the model does not derive it from the writes to \<^verbatim>\<open>src\<close>. (A browser reports every
  write to the attribute, those of the handler included; such a run is one in which
  \<open>SrcChanged\<close> follows the event that wrote.) A timer fires at most once, and only
  while it is active.
\<close>

datatype event =
  IframeLoad
| IframeError
| SrcChanged
| Message message_event
| TimerFired nat
| ForceReloadClicked string

definition fire :: "env \<Rightarrow> nat \<Rightarrow> cmd" where
  "fire E i s =
     (case find (\<lambda>t. fst t = i) (timers s) of
        None \<Rightarrow> (s, None)
      | Some (j, delay, cb) \<Rightarrow> run_callback E cb (clearTimeout i s))"

definition listening :: "cmd \<Rightarrow> cmd" where
  "listening c = cond (\<lambda>s. iframe s \<noteq> None) c skip"

fun step :: "env \<Rightarrow> event \<Rightarrow> cmd" where
  "step E IframeLoad = listening (stmt onIframeLoad)"
| "step E IframeError = listening (onIframeError E)"
| "step E SrcChanged = listening (onSrcChange E)"
| "step E (Message ev) = listening (handleIframeMessage E ev)"
| "step E (TimerFired i) = fire E i"
| "step E (ForceReloadClicked timestamp) = forceReload E timestamp"

text \<open>
  A run: the events are handled one after the other; an exception that escapes a
  handler is reported to the page and the next event is handled in the state left.
\<close>

definition deliver :: "env \<Rightarrow> event list \<Rightarrow> handler \<Rightarrow> handler" where
  "deliver E evs s = foldl (\<lambda>s ev. fst (step E ev s)) s evs"

text \<open>
  The constructor followed by \<^verbatim>\<open>init\<close>: the two elements looked up in the page, the
  status bar, and the page's timer counter (timer identifiers are positive).
\<close>

definition new_handler ::
  "iframe_el option \<Rightarrow> overlay_el option \<Rightarrow> bool option \<Rightarrow> nat \<Rightarrow> handler" where
  "new_handler fr ov bar n =
     (let s = \<lparr>iframe = fr, loadingOverlay = ov, gameLoaded = False, retryCount = 0,
               maxRetries = 3, loadTimeout = None, loadTimeoutDuration = 30000,
               timers = [], nextTimerId = Suc n, statusBar = bar, body = [],
               nextNode = 0, effects = []\<rparr>
      in if fr \<noteq> None then startLoadTimeout s else s)"

text \<open>A page with the game frame, the loading overlay and the status bar.\<close>

definition game_page :: handler where
  "game_page =
     new_handler
       (Some \<lparr>src = ''https://lovemoneygame.io/lovemoney.embed'', loading = True, loaded = False\<rparr>)
       (Some \<lparr>hidden = False, innerHTML = PageMarkup\<rparr>)
       (Some False) 0"

subsection \<open>Runs and observations used by the theorems\<close>

text \<open>
  A failure of the embed, as the controller receives it: the iframe's \<^verbatim>\<open>error\<close> event,
  the expiry of the bounded wait, or a \<^verbatim>\<open>gameError\<close> message from the embed's origin.
\<close>

datatype failure =
  EmbedError
| WaitExpired
| ReportedError jsval

fun fail :: "env \<Rightarrow> failure \<Rightarrow> cmd" where
  "fail E EmbedError = onIframeError E"
| "fail E WaitExpired = onLoadTimeout E"
| "fail E (ReportedError m) =
     handleIframeMessage E
       \<lparr>origin = embed_origin, data = JObj [(''type'', JStr ''gameError''), (''message'', m)]\<rparr>"

definition fail_all :: "env \<Rightarrow> failure list \<Rightarrow> handler \<Rightarrow> handler" where
  "fail_all E fs s = foldl (\<lambda>s f. fst (fail E f s)) s fs"

text \<open>The status updates among the observed effects, in order.\<close>

fun status_updates :: "effect list \<Rightarrow> (status_text \<times> status_kind) list" where
  "status_updates [] = []"
| "status_updates (Called (UpdateStatus t k) # es) = (t, k) # status_updates es"
| "status_updates (e # es) = status_updates es"

text \<open>
  The status update the \<open>k\<close>-th failure (counting from 0) leads to: a retry for the
  first three, the failure display from the fourth on.
\<close>

definition failure_status :: "nat \<Rightarrow> status_text \<times> status_kind" where
  "failure_status k =
     (if k < 3 then (RetryingText (Suc k) 3, KLoading) else (FailedToLoadGame, KError))"

text \<open>The two fields that carry the lifecycle: loaded or not, and the retries so far.\<close>

definition lifecycle :: "handler \<Rightarrow> bool \<times> nat" where
  "lifecycle s = (gameLoaded s, retryCount s)"

text \<open>What the retry counter must satisfy.\<close>

definition retries_ok :: "handler \<Rightarrow> bool" where
  "retries_ok s = (maxRetries s = 3 \<and> retryCount s \<le> maxRetries s)"

text \<open>The active timers that wait for the load, and what the timer list must satisfy.\<close>

definition is_load_timer :: "nat \<times> nat \<times> callback \<Rightarrow> bool" where
  "is_load_timer t = (snd (snd t) = LoadTimeoutCb)"

definition active_load_timers :: "handler \<Rightarrow> (nat \<times> nat \<times> callback) list" where
  "active_load_timers s = filter is_load_timer (timers s)"

definition timers_ok :: "handler \<Rightarrow> bool" where
  "timers_ok s =
     (0 < nextTimerId s
      \<and> distinct (map fst (timers s))
      \<and> list_all (\<lambda>t. 0 < fst t \<and> fst t < nextTimerId s) (timers s)
      \<and> list_all (\<lambda>t. is_load_timer t \<longrightarrow> loadTimeout s = Some (fst t)) (timers s))"

text \<open>
  Environments to run on: a \<^verbatim>\<open>JSON.parse\<close> that rejects every text (for payloads that are
  objects already), the page's own application object, and a collaborator whose every
  call throws.
\<close>

definition rejecting_parser :: "string \<Rightarrow> jsval option" where
  "rejecting_parser payload = None"

definition game_env :: env where
  "game_env = page_env rejecting_parser"

definition throwing_app :: collaborator where
  "throwing_app history c = True"

definition faulty_env :: env where
  "faulty_env = \<lparr>loveMoneyApp = Some throwing_app, json_parse = rejecting_parser\<rparr>"

section \<open>Theorems\<close>

subsection \<open>Compatibility score\<close>

lemma score_loop_weights:
  "score_loop r weights (0, 0) =
     ((if supported r ''browser'' then 30 else 0) + other_features_score r, 100)"
  by (simp add: weights_def other_features_score_def)

lemma other_features_score_bounds:
  "0 \<le> other_features_score r \<and> other_features_score r \<le> 70"
  by (simp add: weights_def other_features_score_def)

text \<open>
  Claim C8. When the detected browser is supported, the 30 points of the browser are
  counted twice (in the loop over the weights and again as the bonus) while the maximum
  stays 100: the score is 60 plus the points of the other supported features, so it is
  above 100 as soon as those exceed 40, and it is 130 when every weighted feature is
  supported.
\<close>

theorem calculateCompatibilityScore_browser_counted_twice:
  "supported r ''browser'' \<Longrightarrow>
     calculateCompatibilityScore r = 2 * 30 + other_features_score r
     \<and> ((\<forall>feature \<in> fst ` set weights. supported r feature) \<longrightarrow>
          calculateCompatibilityScore r = 130)"
proof -
  assume b: "supported r ''browser''"
  have eq: "calculateCompatibilityScore r = 2 * 30 + other_features_score r"
    using b
    by (simp add: calculateCompatibilityScore_def score_loop_weights weights_browser_def
        round_percent_def) (simp add: weights_def)
  have "(\<forall>feature \<in> fst ` set weights. supported r feature) \<Longrightarrow> other_features_score r = 70"
    by (simp add: weights_def other_features_score_def)
  with eq show ?thesis by auto
qed

theorem calculateCompatibilityScore_browser_counted_twice_witness:
  "supported (\<lambda>feature. Some True) ''browser''
   \<and> calculateCompatibilityScore (\<lambda>feature. Some True) = 130
   \<and> calculateCompatibilityScore (\<lambda>feature. Some True) > 100"
  using calculateCompatibilityScore_browser_counted_twice [of "\<lambda>feature. Some True"]
  by (simp add: supported_def)

subsection \<open>Guide search\<close>

lemma collect_results_positive:
  "r \<in> set (collect_results query queryWords items) \<Longrightarrow> 0 < score r"
  by (induction items) (auto simp: Let_def index_item.defs split: if_splits)

lemma sort_key_by_decreasing_score:
  "sorted_wrt (\<lambda>a b. score a \<ge> score b) (sort_key (\<lambda>r. - score r) rs)"
proof -
  have "sorted (map (\<lambda>r. - score r) (sort_key (\<lambda>r. - score r) rs))"
    by (rule sorted_sort_key)
  then show ?thesis
    by (simp add: sorted_map)
qed

text \<open>
  Claim C10. For every search index and every query string, \<open>searchContent\<close> returns at
  most 8 results, every result has a strictly positive score, and the results are in
  order of non-increasing score.
\<close>

theorem searchContent_ranked:
  "length (searchContent searchIndex query) \<le> 8
   \<and> (\<forall>r \<in> set (searchContent searchIndex query). 0 < score r)
   \<and> sorted_wrt (\<lambda>a b. score a \<ge> score b) (searchContent searchIndex query)"
proof -
  define rs where
    "rs = collect_results query
            (filter (\<lambda>word. length word > 2) (split_on (CHR '' '') query)) searchIndex"
  have eq: "searchContent searchIndex query = take 8 (sort_key (\<lambda>r. - score r) rs)"
    by (simp add: searchContent_def rs_def)
  have "\<forall>r \<in> set (take 8 (sort_key (\<lambda>r. - score r) rs)). 0 < score r"
    using collect_results_positive
    by (auto simp: rs_def dest!: in_set_takeD)
  moreover have "sorted_wrt (\<lambda>a b. score a \<ge> score b) (take 8 (sort_key (\<lambda>r. - score r) rs))"
    by (rule sorted_wrt_take) (rule sort_key_by_decreasing_score)
  ultimately show ?thesis
    by (simp add: eq)
qed

theorem searchContent_ranked_witness:
  "searchContent sample_index ''moral'' \<noteq> []
   \<and> length (searchContent sample_index ''moral'') \<le> 8
   \<and> 0 < score (hd (searchContent sample_index ''moral''))"
proof -
  have ne: "searchContent sample_index ''moral'' \<noteq> []"
    by (simp add: searchContent_def sample_index_def item_score_def add_word_score_def
        toLowerCase_def lower_char_def index_item.defs)
  then have "hd (searchContent sample_index ''moral'') \<in> set (searchContent sample_index ''moral'')"
    by simp
  with ne searchContent_ranked [of sample_index "''moral''"] show ?thesis
    by blast
qed

subsection \<open>Upgrade path calculator\<close>

lemma ceil_div_covers: "0 < b \<Longrightarrow> a \<le> ceil_div a b * b"
proof -
  assume b: "0 < b"
  have "(- a) div b * b + (- a) mod b = - a" by simp
  moreover have "0 \<le> (- a) mod b" using b by simp
  ultimately have "(- a) div b * b \<le> - a" by linarith
  then show ?thesis by (simp add: ceil_div_def)
qed

lemma js_index_Some:
  "js_index xs i = Some x \<Longrightarrow> 0 \<le> i \<and> i < int (length xs) \<and> x \<in> set xs"
  by (auto simp: js_index_def split: if_splits)

lemma js_index_in_range:
  "0 \<le> i \<Longrightarrow> i < int (length xs) \<Longrightarrow> \<exists>x. js_index xs i = Some x"
  by (simp add: js_index_def)

text \<open>
  With positive earnings, an iteration that does not leave the loop buys the next
  upgrade: the clicks computed by \<open>ceil_div\<close> always cover the missing money. So
  \<open>maxUpgrade - currentUpgrade\<close> drops in every iteration that continues.
\<close>

lemma simulate_loop_returns:
  assumes pos: "\<forall>u \<in> set ups. 0 < earnings u"
  shows "\<exists>r. simulate_loop target maxUpgrade ups money cu tc ms steps = Some r"
proof (induction "nat (maxUpgrade - cu)" arbitrary: money cu tc ms steps rule: less_induct)
  case less
  show ?case
  proof (cases "money < target \<and> cu \<le> maxUpgrade")
    case False
    then show ?thesis
      by (subst simulate_loop.simps) auto
  next
    case enter: True
    show ?thesis
    proof (cases "js_index ups cu")
      case None
      with enter show ?thesis
        by (subst simulate_loop.simps) simp
    next
      case (Some current)
      from js_index_Some [OF Some] pos
      have cu0: "0 \<le> cu" and e: "0 < earnings current" by auto
      show ?thesis
      proof (cases "cu < maxUpgrade \<and> cu < int (length ups) - 1")
        case False
        with enter Some e show ?thesis
          by (subst simulate_loop.simps) (auto simp: Let_def)
      next
        case up: True
        with cu0 obtain nextUpgrade where nx: "js_index ups (cu + 1) = Some nextUpgrade"
          using js_index_in_range [of "cu + 1" ups] by auto
        define money' where
          "money' = (if cost nextUpgrade - money > 0
                     then money + ceil_div (cost nextUpgrade - money) (earnings current)
                                  * earnings current
                     else money)"
        define tc' where
          "tc' = (if cost nextUpgrade - money > 0
                  then tc + ceil_div (cost nextUpgrade - money) (earnings current)
                  else tc)"
        have enough: "cost nextUpgrade \<le> money'"
          using ceil_div_covers [OF e, of "cost nextUpgrade - money"]
          by (simp add: money'_def)
        have step: "simulate_loop target maxUpgrade ups money cu tc ms steps =
            simulate_loop target maxUpgrade ups money' (cu + 1) tc' (ms + moral nextUpgrade)
              (steps @ [\<lparr>upgrade = name nextUpgrade, path_cost = cost nextUpgrade,
                         moralImpact = moral nextUpgrade,
                         newMoralScore = ms + moral nextUpgrade\<rparr>])"
          using enter Some up nx e enough
          by (subst simulate_loop.simps) (auto simp: Let_def money'_def tc'_def)
        have "nat (maxUpgrade - (cu + 1)) < nat (maxUpgrade - cu)"
          using up by simp
        from less [OF this] show ?thesis
          by (simp add: step)
      qed
    qed
  qed
qed

lemma upgrades_positive: "\<forall>u \<in> set upgrades. 0 < earnings u"
  by (simp add: upgrades_def)


text \<open>A run of the calculator: from nothing to 1000 with upgrades up to the third.\<close>

lemma simulateUpgradePath_example:
  "map_option (map_sum id (\<lambda>s. (success s, totalClicks s, finalMoral s, estimatedTime s)))
     (simulateUpgradePath 1000 0 0 2 upgrades) = Some (Inr (True, 400, 85, 40))"
  by code_simp

subsection \<open>Embed lifecycle controller: the combinators\<close>

lemmas cmd_defs = skip_def stmt_def throw_def cond_def try_catch_def

lemma block_preserves:
  assumes "\<And>c s. c \<in> set cs \<Longrightarrow> P s \<Longrightarrow> P (fst (c s))" and "P s"
  shows "P (fst (block cs s))"
  using assms
proof (induction cs arbitrary: s)
  case Nil
  then show ?case by simp
next
  case (Cons c cs)
  from Cons.prems have "P (fst (c s))" by simp
  with Cons show ?case
    by (cases "c s") (auto split: option.splits)
qed

lemma clearLoadTimeout_fields [simp]:
  "retryCount (clearLoadTimeout s) = retryCount s"
  "maxRetries (clearLoadTimeout s) = maxRetries s"
  "gameLoaded (clearLoadTimeout s) = gameLoaded s"
  "effects (clearLoadTimeout s) = effects s"
  by (simp_all add: clearLoadTimeout_def clearTimeout_def split: option.splits)

lemma status_updates_append:
  "status_updates (xs @ ys) = status_updates xs @ status_updates ys"
  by (induction xs rule: status_updates.induct) simp_all

lemma parse_data_object [simp]: "parse_data E (JObj kvs) = Some (JObj kvs)"
  by (simp add: parse_data_def)

subsection \<open>Messages from other origins\<close>

text \<open>
  Claim C2. A message whose origin is not exactly \<^verbatim>\<open>https://lovemoneygame.io\<close> leaves the
  whole state as it was (the handler's fields, the timers, the page and the observed
  effects) and throws nothing, whatever its payload, the collaborator and the parser
  are. The same holds for the event as the browser delivers it.
\<close>

theorem foreign_origin_dropped:
  "origin ev \<noteq> ''https://lovemoneygame.io'' \<Longrightarrow>
     handleIframeMessage E ev s = (s, None) \<and> step E (Message ev) s = (s, None)"
  by (simp add: handleIframeMessage_def embed_origin_def listening_def cmd_defs)

theorem foreign_origin_dropped_witness:
  "handleIframeMessage game_env
     \<lparr>origin = ''https://evil.example'', data = JObj [(''type'', JStr ''gameLoaded'')]\<rparr> game_page
   = (game_page, None)"
  using foreign_origin_dropped [of "\<lparr>origin = ''https://evil.example'', data = JObj [(''type'', JStr ''gameLoaded'')]\<rparr>" game_env game_page]
  by simp

subsection \<open>Idempotent success\<close>

lemma onGameLoadSuccess_when_loaded: "gameLoaded s \<Longrightarrow> onGameLoadSuccess E s = (s, None)"
  by (simp add: onGameLoadSuccess_def cmd_defs)

lemma onGameLoadSuccess_sets_loaded: "gameLoaded (fst (onGameLoadSuccess E s))"
  by (simp add: onGameLoadSuccess_def cmd_defs invoke_def appPresent_def hideLoadingOverlay_def
      showGameLoaded_def if_iframe_def setTimeout_def split: option.splits)



subsection \<open>Game completion\<close>

text \<open>
  Claim C4 as stated fails: the \<^verbatim>\<open>switch\<close> compares the type with \<^verbatim>\<open>'gameComplete'\<close>, so
  a message of type \<^verbatim>\<open>"GameComplete"\<close> falls to the default case and no modal is
  appended.
\<close>

theorem capitalised_GameComplete_ignored:
  "body (fst (handleIframeMessage game_env
       \<lparr>origin = ''https://lovemoneygame.io'',
        data = JObj [(''type'', JStr ''GameComplete''), (''ending'', JStr ''High Morality''),
                     (''finalScore'', JNum 25000)]\<rparr> game_page)) = []
   \<and> effects (fst (handleIframeMessage game_env
       \<lparr>origin = ''https://lovemoneygame.io'',
        data = JObj [(''type'', JStr ''GameComplete''), (''ending'', JStr ''High Morality''),
                     (''finalScore'', JNum 25000)]\<rparr> game_page))
     = [Console (UnknownMessage
          (JObj [(''type'', JStr ''GameComplete''), (''ending'', JStr ''High Morality''),
                 (''finalScore'', JNum 25000)]))]"
  by (simp add: handleIframeMessage_def embed_origin_def dispatch_def cmd_defs console_def
      game_page_def new_handler_def startLoadTimeout_def clearLoadTimeout_def setTimeout_def)

text \<open>
  Claim C4, amended. A message from the embed's origin with the payload
  \<^verbatim>\<open>{type: "gameComplete", ending: "High Morality", finalScore: 25000}\<close> appends exactly
  one completion modal, showing "High Morality" and 25000, to the modals of the page,
  emits no status update and throws nothing, whenever the analytics call made first
  (\<^verbatim>\<open>trackEvent('Game', 'complete', "High Morality")\<close>) does not throw or there is no
  application object.
\<close>

theorem gameComplete_notifies_once:
  assumes "\<forall>app. loveMoneyApp E = Some app \<longrightarrow>
             \<not> app (effects s) (TrackEvent ''Game'' ''complete'' (JStr ''High Morality''))"
  shows "snd (handleIframeMessage E
       \<lparr>origin = ''https://lovemoneygame.io'',
        data = JObj [(''type'', JStr ''gameComplete''), (''ending'', JStr ''High Morality''),
                     (''finalScore'', JNum 25000)]\<rparr> s) = None
   \<and> body (fst (handleIframeMessage E
       \<lparr>origin = ''https://lovemoneygame.io'',
        data = JObj [(''type'', JStr ''gameComplete''), (''ending'', JStr ''High Morality''),
                     (''finalScore'', JNum 25000)]\<rparr> s))
     = body s @ [(nextNode s, CompletionModal (JStr ''High Morality'') (JNum 25000))]
   \<and> status_updates (effects (fst (handleIframeMessage E
       \<lparr>origin = ''https://lovemoneygame.io'',
        data = JObj [(''type'', JStr ''gameComplete''), (''ending'', JStr ''High Morality''),
                     (''finalScore'', JNum 25000)]\<rparr> s)))
     = status_updates (effects s)"
  using assms
  by (cases "loveMoneyApp E")
    (simp_all add: handleIframeMessage_def embed_origin_def dispatch_def cmd_defs
      handleGameComplete_def showGameComplete_def appPresent_def invoke_def js_or_def
      setTimeout_def Let_def status_updates_append)

theorem gameComplete_notifies_once_witness:
  "body (fst (handleIframeMessage game_env
       \<lparr>origin = ''https://lovemoneygame.io'',
        data = JObj [(''type'', JStr ''gameComplete''), (''ending'', JStr ''High Morality''),
                     (''finalScore'', JNum 25000)]\<rparr> game_page))
   = [(0, CompletionModal (JStr ''High Morality'') (JNum 25000))]"
proof -
  have "\<forall>app. loveMoneyApp game_env = Some app \<longrightarrow>
          \<not> app (effects game_page) (TrackEvent ''Game'' ''complete'' (JStr ''High Morality''))"
    by (simp add: game_env_def page_env_def LoveMoneyApp_def)
  from gameComplete_notifies_once [OF this] show ?thesis
    by (simp add: game_page_def new_handler_def startLoadTimeout_def clearLoadTimeout_def
        setTimeout_def)
qed

subsection \<open>Faults of the collaborators\<close>

text \<open>
  Claim C5 as stated fails. With a collaborator that throws, the iframe's \<^verbatim>\<open>error\<close>
  event lets the exception escape the handler, and the retry timer that the same event
  arms with the page's own collaborator is never armed.
\<close>

theorem collaborator_fault_escapes:
  "snd (step faulty_env IframeError game_page)
     = Some (CollaboratorFault (UpdateStatus (RetryingText 1 3) KLoading))
   \<and> timers (fst (step faulty_env IframeError game_page)) = []
   \<and> timers (fst (step game_env IframeError game_page)) = [(2, 2000, RetryReloadCb)]"
  by (simp add: game_page_def new_handler_def startLoadTimeout_def clearLoadTimeout_def
      clearTimeout_def setTimeout_def listening_def onIframeError_def onGameLoadError_def
      retryLoad_def showRetryState_def cmd_defs console_def invoke_def appPresent_def
      if_overlay_def faulty_env_def throwing_app_def game_env_def page_env_def LoveMoneyApp_def)

lemma onGameLoadSuccess_lifecycle:
  "lifecycle (fst (onGameLoadSuccess E s)) = (True, if gameLoaded s then retryCount s else 0)"
  by (simp add: lifecycle_def onGameLoadSuccess_def cmd_defs invoke_def appPresent_def
      hideLoadingOverlay_def showGameLoaded_def if_iframe_def setTimeout_def
      split: option.splits)

lemma onGameLoadError_lifecycle:
  "lifecycle (fst (onGameLoadError E m s)) =
     (gameLoaded s, if retryCount s < maxRetries s then Suc (retryCount s) else retryCount s)"
  by (simp add: lifecycle_def onGameLoadError_def retryLoad_def showRetryState_def
      showGameError_def cmd_defs console_def invoke_def appPresent_def if_overlay_def
      setTimeout_def split: option.splits)

lemma handleGameProgress_lifecycle:
  "lifecycle (fst (handleGameProgress E d s)) = lifecycle s"
  by (simp add: lifecycle_def handleGameProgress_def cmd_defs invoke_def appPresent_def
      split: option.splits)

lemma handleGameComplete_lifecycle:
  "lifecycle (fst (handleGameComplete E d s)) = lifecycle s"
  by (simp add: lifecycle_def handleGameComplete_def showGameComplete_def cmd_defs invoke_def
      appPresent_def setTimeout_def Let_def split: option.splits)

lemma dispatch_lifecycle:
  "lifecycle (fst (dispatch E d s)) = lifecycle (fst (dispatch E' d s))"
  by (simp add: dispatch_def Let_def onGameLoadSuccess_lifecycle onGameLoadError_lifecycle
      handleGameProgress_lifecycle handleGameComplete_lifecycle)

lemma caught_lifecycle:
  "lifecycle (fst (try_catch c (\<lambda>e. stmt (console (ErrorParsingMessage e))) s))
     = lifecycle (fst (c s))"
  by (cases "c s") (simp add: try_catch_def stmt_def console_def lifecycle_def split: option.splits)

lemma caught_no_fault:
  "snd (try_catch c (\<lambda>e. stmt (console (ErrorParsingMessage e))) s) = None"
  by (cases "c s") (simp add: try_catch_def stmt_def split: option.splits)

lemma lifecycle_kept [simp]:
  "lifecycle (clearLoadTimeout s) = lifecycle s"
  "lifecycle (startLoadTimeout s) = lifecycle s"
  "lifecycle (snd (setTimeout cb d s)) = lifecycle s"
  "lifecycle (clearTimeout i s) = lifecycle s"
  "lifecycle (if_overlay f s) = lifecycle s"
  "lifecycle (if_iframe g s) = lifecycle s"
  "lifecycle (console l s) = lifecycle s"
  "lifecycle (fst (invoke E c s)) = lifecycle s"
  by (simp_all add: lifecycle_def clearLoadTimeout_def startLoadTimeout_def setTimeout_def
      clearTimeout_def if_overlay_def if_iframe_def console_def invoke_def Let_def
      split: option.splits)

lemma showLoadingState_lifecycle: "lifecycle (fst (showLoadingState E s)) = lifecycle s"
  unfolding showLoadingState_def
  by (rule block_preserves [where P = "\<lambda>t. lifecycle t = lifecycle s"]) (auto simp: cmd_defs)

lemma onSrcChange_lifecycle: "lifecycle (fst (onSrcChange E s)) = (False, 0)"
proof -
  have "lifecycle (fst (block [showLoadingState E, stmt startLoadTimeout]
          (s\<lparr>gameLoaded := False, retryCount := 0\<rparr>))) = (False, 0)"
    by (rule block_preserves [where P = "\<lambda>t. lifecycle t = (False, 0)"])
      (auto simp: cmd_defs showLoadingState_lifecycle, simp add: lifecycle_def)
  then show ?thesis
    by (simp add: onSrcChange_def stmt_def)
qed

lemma forceReload_lifecycle: "lifecycle (fst (forceReload E ts s)) = (False, 0)"
proof -
  have "lifecycle (fst (block
       [showLoadingState E,
        stmt (\<lambda>s. if iframe s \<noteq> None
                  then startLoadTimeout
                         (if_iframe
                            (\<lambda>fr. fr\<lparr>src := ''https://lovemoneygame.io/lovemoney.embed?t='' @ ts\<rparr>)
                            s)
                  else s),
        cond (appPresent E) (invoke E (TrackEvent ''Game'' ''force_reload'' JUndefined)) skip]
          (s\<lparr>retryCount := 0, gameLoaded := False\<rparr>))) = (False, 0)"
    by (rule block_preserves [where P = "\<lambda>t. lifecycle t = (False, 0)"])
      (auto simp: cmd_defs showLoadingState_lifecycle, simp add: lifecycle_def)
  then show ?thesis
    by (simp add: forceReload_def stmt_def)
qed

lemma onIframeError_lifecycle:
  "lifecycle (fst (onIframeError E s)) =
     (gameLoaded s, if retryCount s < maxRetries s then Suc (retryCount s) else retryCount s)"
proof -
  have "fst (onIframeError E s) = fst (onGameLoadError E (JStr ''Iframe failed to load'') (clearLoadTimeout s))"
    by (simp add: onIframeError_def stmt_def split: prod.splits option.splits)
  then show ?thesis
    using lifecycle_kept(1) [of s]
    by (simp add: onGameLoadError_lifecycle)
qed

lemma run_callback_lifecycle:
  "lifecycle (fst (run_callback E' cb s)) = lifecycle (fst (run_callback E cb s))"
  by (cases cb)
    (simp_all add: run_callback_def cmd_defs onLoadTimeout_def onGameLoadError_lifecycle
      onGameLoadSuccess_lifecycle split: option.splits)

lemma handleIframeMessage_lifecycle:
  assumes "json_parse E' = json_parse E"
  shows "lifecycle (fst (handleIframeMessage E' ev s)) = lifecycle (fst (handleIframeMessage E ev s))"
proof -
  have "parse_data E' (data ev) = parse_data E (data ev)"
    using assms by (cases "data ev") (simp_all add: parse_data_def)
  then show ?thesis
    using dispatch_lifecycle [of E' _ s E]
    by (cases "parse_data E (data ev)")
      (simp_all add: handleIframeMessage_def caught_lifecycle throw_def)
qed

lemma step_lifecycle:
  assumes "json_parse E' = json_parse E"
  shows "lifecycle (fst (step E' ev s)) = lifecycle (fst (step E ev s))"
  by (cases ev)
    (simp_all add: listening_def cond_def skip_def stmt_def onIframeError_lifecycle
      onSrcChange_lifecycle forceReload_lifecycle handleIframeMessage_lifecycle [OF assms]
      fire_def run_callback_lifecycle [of E' _ _ E] split: option.splits)

text \<open>
  Claim C5, amended. For every lifecycle event, every state and every behaviour of the
  collaborators (throwing ones included), the collaborators have no influence on the
  lifecycle fields: the handler leaves \<open>gameLoaded\<close> and \<open>retryCount\<close> the same under
  any two environments with the same parser. And when the event is an inbound message,
  no exception escapes the handler: whatever is thrown inside the \<^verbatim>\<open>try\<close> of
  \<open>handleIframeMessage\<close> is caught and logged.
\<close>

theorem faults_leave_lifecycle:
  "(json_parse E' = json_parse E \<longrightarrow>
      lifecycle (fst (step E' ev s)) = lifecycle (fst (step E ev s)))
   \<and> snd (handleIframeMessage E m s) = None
   \<and> snd (step E (Message m) s) = None"
proof -
  have "snd (handleIframeMessage E m s) = None"
    by (simp add: handleIframeMessage_def skip_def caught_no_fault)
  moreover have "lifecycle (fst (step E' ev s)) = lifecycle (fst (step E ev s))"
    if "json_parse E' = json_parse E"
    using that by (rule step_lifecycle)
  ultimately show ?thesis
    by (simp add: listening_def cond_def skip_def)
qed

theorem faults_leave_lifecycle_witness:
  "lifecycle (fst (step faulty_env IframeError game_page)) = (False, 1)
   \<and> snd (step faulty_env
        (Message \<lparr>origin = ''https://lovemoneygame.io'',
                  data = JObj [(''type'', JStr ''gameError''), (''message'', JStr ''boom'')]\<rparr>)
        game_page) = None"
proof -
  have "lifecycle (fst (step game_env IframeError game_page)) = (False, 1)"
    by (simp add: listening_def cond_def onIframeError_lifecycle)
      (simp add: game_page_def new_handler_def startLoadTimeout_def clearLoadTimeout_def
        setTimeout_def)
  moreover have "json_parse faulty_env = json_parse game_env"
    by (simp add: game_env_def faulty_env_def page_env_def)
  ultimately show ?thesis
    using faults_leave_lifecycle [where E' = faulty_env and E = game_env and ev = IframeError
        and s = game_page]
      faults_leave_lifecycle [where E = faulty_env and s = game_page and E' = faulty_env
        and m = "\<lparr>origin = ''https://lovemoneygame.io'',
          data = JObj [(''type'', JStr ''gameError''), (''message'', JStr ''boom'')]\<rparr>"]
    by simp
qed

subsection \<open>At most one load timer\<close>

lemma timers_ok_fields:
  "timers s' = timers s \<Longrightarrow> nextTimerId s' = nextTimerId s \<Longrightarrow> loadTimeout s' = loadTimeout s
     \<Longrightarrow> timers_ok s' = timers_ok s"
  by (simp add: timers_ok_def)

lemma at_most_one_with_key:
  "distinct (map f xs) \<Longrightarrow> list_all (\<lambda>x. f x = k) xs \<Longrightarrow> length xs \<le> 1"
  by (cases xs; cases "tl xs") auto

lemma timers_ok_bound:
  assumes "timers_ok s"
  shows "length (active_load_timers s) \<le> 1"
proof (cases "loadTimeout s")
  case None
  with assms have "active_load_timers s = []"
    by (auto simp: timers_ok_def active_load_timers_def list_all_iff filter_empty_conv)
  then show ?thesis by simp
next
  case (Some i)
  from assms have "distinct (map fst (active_load_timers s))"
    by (simp add: timers_ok_def active_load_timers_def distinct_map_filter)
  moreover from assms Some have "list_all (\<lambda>t. fst t = i) (active_load_timers s)"
    by (auto simp: timers_ok_def active_load_timers_def list_all_iff)
  ultimately show ?thesis by (rule at_most_one_with_key)
qed

lemma setTimeout_ok:
  "timers_ok s \<Longrightarrow> cb \<noteq> LoadTimeoutCb \<Longrightarrow> timers_ok (snd (setTimeout cb d s))"
  by (auto simp: timers_ok_def setTimeout_def is_load_timer_def list_all_iff)

lemma clearTimeout_ok: "timers_ok s \<Longrightarrow> timers_ok (clearTimeout i s)"
  by (auto simp: timers_ok_def clearTimeout_def list_all_iff distinct_map_filter)

lemma clearLoadTimeout_ok:
  assumes "timers_ok s"
  shows "timers_ok (clearLoadTimeout s) \<and> active_load_timers (clearLoadTimeout s) = []"
proof (cases "loadTimeout s")
  case None
  with assms show ?thesis
    by (auto simp: timers_ok_def clearLoadTimeout_def active_load_timers_def list_all_iff
        filter_empty_conv)
next
  case (Some i)
  show ?thesis
  proof (cases "i = 0")
    case True
    from assms have "\<forall>t \<in> set (timers s). is_load_timer t \<longrightarrow> 0 < fst t \<and> fst t = i"
      using Some by (auto simp: timers_ok_def list_all_iff)
    with True have "active_load_timers s = []"
      by (auto simp: active_load_timers_def filter_empty_conv)
    with assms Some True show ?thesis
      by (simp add: clearLoadTimeout_def)
  next
    case False
    with assms Some show ?thesis
      by (auto simp: timers_ok_def clearLoadTimeout_def clearTimeout_def active_load_timers_def
          list_all_iff distinct_map_filter filter_empty_conv)
  qed
qed

lemma startLoadTimeout_ok:
  assumes "timers_ok s"
  shows "timers_ok (startLoadTimeout s) \<and> length (active_load_timers (startLoadTimeout s)) = 1"
proof -
  from clearLoadTimeout_ok [OF assms]
  have ok: "timers_ok (clearLoadTimeout s)" and none: "active_load_timers (clearLoadTimeout s) = []"
    by simp_all
  then show ?thesis
    by (auto simp: startLoadTimeout_def setTimeout_def Let_def timers_ok_def
        active_load_timers_def is_load_timer_def list_all_iff filter_empty_conv)
qed

lemma if_overlay_ok [simp]: "timers_ok (if_overlay f s) = timers_ok s"
  by (rule timers_ok_fields) (simp_all add: if_overlay_def split: option.splits)

lemma if_iframe_ok [simp]: "timers_ok (if_iframe f s) = timers_ok s"
  by (rule timers_ok_fields) (simp_all add: if_iframe_def split: option.splits)

lemma console_ok [simp]: "timers_ok (console l s) = timers_ok s"
  by (rule timers_ok_fields) (simp_all add: console_def)

lemma invoke_ok [simp]: "timers_ok (fst (invoke E c s)) = timers_ok s"
  by (rule timers_ok_fields) (simp_all add: invoke_def split: option.splits)

lemma update_ok [simp]:
  "timers_ok (s\<lparr>gameLoaded := g\<rparr>) = timers_ok s"
  "timers_ok (s\<lparr>retryCount := r\<rparr>) = timers_ok s"
  "timers_ok (s\<lparr>iframe := fr\<rparr>) = timers_ok s"
  "timers_ok (s\<lparr>loadingOverlay := ov\<rparr>) = timers_ok s"
  "timers_ok (s\<lparr>statusBar := bar\<rparr>) = timers_ok s"
  "timers_ok (s\<lparr>body := b\<rparr>) = timers_ok s"
  "timers_ok (s\<lparr>nextNode := k\<rparr>) = timers_ok s"
  by (simp_all add: timers_ok_def)

lemma showLoadingState_ok: "timers_ok s \<Longrightarrow> timers_ok (fst (showLoadingState E s))"
  unfolding showLoadingState_def
  by (rule block_preserves) (auto simp: cmd_defs)

lemma showRetryState_ok: "timers_ok s \<Longrightarrow> timers_ok (fst (showRetryState E s))"
  unfolding showRetryState_def
  by (rule block_preserves) (auto simp: cmd_defs)

lemma showGameError_ok: "timers_ok s \<Longrightarrow> timers_ok (fst (showGameError E m s))"
  unfolding showGameError_def
  by (rule block_preserves) (auto simp: cmd_defs)

lemma retryLoad_ok: "timers_ok s \<Longrightarrow> timers_ok (fst (retryLoad E s))"
  unfolding retryLoad_def
  by (rule block_preserves) (auto simp: cmd_defs showRetryState_ok setTimeout_ok)

lemma onGameLoadError_ok: "timers_ok s \<Longrightarrow> timers_ok (fst (onGameLoadError E m s))"
  unfolding onGameLoadError_def
  by (rule block_preserves) (auto simp: cmd_defs retryLoad_ok showGameError_ok)

lemma onGameLoadSuccess_ok: "timers_ok s \<Longrightarrow> timers_ok (fst (onGameLoadSuccess E s))"
proof -
  assume ok: "timers_ok s"
  have inner: "timers_ok (fst (block [invoke E (TrackEvent ''Game'' ''load_success'' JUndefined),
                 invoke E (UpdateStatus GameLoadedOk KSuccess)] t))" if "timers_ok t" for t
    using _ that by (rule block_preserves) auto
  have "timers_ok (fst (block
          [stmt (\<lambda>s. s\<lparr>gameLoaded := True\<rparr>),
           stmt (\<lambda>s. s\<lparr>retryCount := 0\<rparr>),
           stmt hideLoadingOverlay,
           stmt showGameLoaded,
           cond (appPresent E)
             (block
                [invoke E (TrackEvent ''Game'' ''load_success'' JUndefined),
                 invoke E (UpdateStatus GameLoadedOk KSuccess)])
             skip,
           stmt (\<lambda>s. snd (setTimeout HideStatusCb 3000 s))] s))"
    using _ ok
    by (rule block_preserves)
      (auto simp: cmd_defs inner setTimeout_ok hideLoadingOverlay_def showGameLoaded_def
        simp del: block.simps)
  with ok show ?thesis
    by (simp add: onGameLoadSuccess_def cond_def skip_def)
qed

lemma onIframeLoad_ok: "timers_ok s \<Longrightarrow> timers_ok (onIframeLoad s)"
  by (simp add: onIframeLoad_def setTimeout_ok clearLoadTimeout_ok)

lemma onIframeError_ok: "timers_ok s \<Longrightarrow> timers_ok (fst (onIframeError E s))"
  unfolding onIframeError_def
  by (rule block_preserves) (auto simp: cmd_defs clearLoadTimeout_ok onGameLoadError_ok)

lemma onSrcChange_ok: "timers_ok s \<Longrightarrow> timers_ok (fst (onSrcChange E s))"
  unfolding onSrcChange_def
  by (rule block_preserves) (auto simp: cmd_defs showLoadingState_ok startLoadTimeout_ok)

lemma forceReload_ok: "timers_ok s \<Longrightarrow> timers_ok (fst (forceReload E ts s))"
  unfolding forceReload_def
  by (rule block_preserves) (auto simp: cmd_defs showLoadingState_ok startLoadTimeout_ok)

lemma handleGameComplete_ok: "timers_ok s \<Longrightarrow> timers_ok (fst (handleGameComplete E d s))"
  unfolding handleGameComplete_def
  by (rule block_preserves) (auto simp: cmd_defs showGameComplete_def Let_def setTimeout_ok)

lemma dispatch_ok: "timers_ok s \<Longrightarrow> timers_ok (fst (dispatch E d s))"
  by (simp add: dispatch_def Let_def onGameLoadSuccess_ok onGameLoadError_ok
      handleGameComplete_ok handleGameProgress_def cmd_defs)

lemma handleIframeMessage_ok: "timers_ok s \<Longrightarrow> timers_ok (fst (handleIframeMessage E ev s))"
proof -
  assume ok: "timers_ok s"
  have "timers_ok (fst (try_catch c (\<lambda>e. stmt (console (ErrorParsingMessage e))) s))"
    if "timers_ok (fst (c s))" for c
    using that by (cases "c s") (simp add: try_catch_def stmt_def split: option.splits)
  with ok dispatch_ok [OF ok] show ?thesis
    by (simp add: handleIframeMessage_def skip_def throw_def split: option.splits)
qed

lemma run_callback_ok: "timers_ok s \<Longrightarrow> timers_ok (fst (run_callback E cb s))"
  by (cases cb)
    (auto simp: run_callback_def cmd_defs onLoadTimeout_def onGameLoadError_ok
      onGameLoadSuccess_ok setTimeout_ok startLoadTimeout_ok split: option.splits)

lemma fire_ok: "timers_ok s \<Longrightarrow> timers_ok (fst (fire E i s))"
  by (auto simp: fire_def run_callback_ok clearTimeout_ok split: option.splits)

lemma step_ok: "timers_ok s \<Longrightarrow> timers_ok (fst (step E ev s))"
  by (cases ev)
    (simp_all add: listening_def cond_def skip_def stmt_def onIframeLoad_ok onIframeError_ok
      onSrcChange_ok handleIframeMessage_ok fire_ok forceReload_ok)

lemma deliver_ok: "timers_ok s \<Longrightarrow> timers_ok (deliver E evs s)"
  unfolding deliver_def
  by (induction evs arbitrary: s) (simp_all add: step_ok)

lemma new_handler_ok: "timers_ok (new_handler fr ov bar n)"
proof -
  have "timers_ok \<lparr>iframe = f, loadingOverlay = ov, gameLoaded = False, retryCount = 0,
               maxRetries = 3, loadTimeout = None, loadTimeoutDuration = 30000,
               timers = [], nextTimerId = Suc n, statusBar = bar, body = [],
               nextNode = 0, effects = []\<rparr>" for f
    by (simp add: timers_ok_def)
  then show ?thesis
    by (simp add: new_handler_def Let_def startLoadTimeout_ok)
qed

text \<open>
  Claim C6. In every state the controller reaches from its construction, by any
  sequence of events and with any collaborator, at most one load-timeout timer is
  active; and arming the wait in such a state (\<open>startLoadTimeout\<close>, which
  initialisation, retry, source change and forced reload all go through) leaves exactly
  one, the pending one having been cancelled first.
\<close>

theorem one_load_timer:
  "length (active_load_timers (deliver E evs (new_handler fr ov bar n))) \<le> 1
   \<and> length (active_load_timers (startLoadTimeout (deliver E evs (new_handler fr ov bar n)))) = 1"
proof -
  have ok: "timers_ok (deliver E evs (new_handler fr ov bar n))"
    by (rule deliver_ok [OF new_handler_ok])
  from timers_ok_bound [OF ok] startLoadTimeout_ok [OF ok] show ?thesis
    by blast
qed

theorem one_load_timer_witness:
  "length (active_load_timers
      (deliver game_env [IframeError, SrcChanged, ForceReloadClicked ''1700000000000'']
         game_page)) \<le> 1
   \<and> length (active_load_timers (startLoadTimeout
      (deliver game_env [IframeError, SrcChanged, ForceReloadClicked ''1700000000000'']
         game_page))) = 1"
  using one_load_timer [of game_env
      "[IframeError, SrcChanged, ForceReloadClicked ''1700000000000'']"
      "Some \<lparr>src = ''https://lovemoneygame.io/lovemoney.embed'', loading = True, loaded = False\<rparr>"
      "Some \<lparr>hidden = False, innerHTML = PageMarkup\<rparr>" "Some False" 0]
  by (simp add: game_page_def)

subsection \<open>The retry counter\<close>

lemma retries_ok_fields:
  "retryCount s' = retryCount s \<Longrightarrow> maxRetries s' = maxRetries s
     \<Longrightarrow> retries_ok s' = retries_ok s"
  by (simp add: retries_ok_def)

lemma retries_ok_kept [simp]:
  "retries_ok (clearLoadTimeout s) = retries_ok s"
  "retries_ok (startLoadTimeout s) = retries_ok s"
  "retries_ok (snd (setTimeout cb d s)) = retries_ok s"
  "retries_ok (clearTimeout i s) = retries_ok s"
  "retries_ok (if_overlay f s) = retries_ok s"
  "retries_ok (if_iframe g s) = retries_ok s"
  "retries_ok (console l s) = retries_ok s"
  "retries_ok (fst (invoke E c s)) = retries_ok s"
  by (rule retries_ok_fields;
      simp add: clearLoadTimeout_def startLoadTimeout_def setTimeout_def clearTimeout_def
        if_overlay_def if_iframe_def console_def invoke_def Let_def split: option.splits)+

lemma retries_ok_update [simp]:
  "retries_ok (s\<lparr>gameLoaded := g\<rparr>) = retries_ok s"
  "retries_ok (s\<lparr>iframe := fr\<rparr>) = retries_ok s"
  "retries_ok (s\<lparr>loadingOverlay := ov\<rparr>) = retries_ok s"
  "retries_ok (s\<lparr>statusBar := bar\<rparr>) = retries_ok s"
  "retries_ok (s\<lparr>body := b\<rparr>) = retries_ok s"
  "retries_ok (s\<lparr>nextNode := k\<rparr>) = retries_ok s"
  "retries_ok s \<Longrightarrow> retries_ok (s\<lparr>retryCount := 0\<rparr>)"
  by (simp_all add: retries_ok_def)

lemma showLoadingState_retries: "retries_ok s \<Longrightarrow> retries_ok (fst (showLoadingState E s))"
  unfolding showLoadingState_def
  by (rule block_preserves) (auto simp: cmd_defs)

lemma showRetryState_retries: "retries_ok s \<Longrightarrow> retries_ok (fst (showRetryState E s))"
  unfolding showRetryState_def
  by (rule block_preserves) (auto simp: cmd_defs)

lemma showGameError_retries: "retries_ok s \<Longrightarrow> retries_ok (fst (showGameError E m s))"
  unfolding showGameError_def
  by (rule block_preserves) (auto simp: cmd_defs)

lemma retryLoad_retries:
  assumes "retries_ok s" "retryCount s < maxRetries s"
  shows "retries_ok (fst (retryLoad E s))"
proof -
  have inc: "retries_ok (s\<lparr>retryCount := retryCount s + 1\<rparr>)"
    using assms by (simp add: retries_ok_def)
  have "retries_ok (fst (block
       [stmt (\<lambda>s. console (RetryingGameLoad (retryCount s) (maxRetries s)) s),
        showRetryState E,
        stmt (\<lambda>s. snd (setTimeout RetryReloadCb 2000 s))] (s\<lparr>retryCount := retryCount s + 1\<rparr>)))"
    using _ inc by (rule block_preserves) (auto simp: cmd_defs showRetryState_retries)
  then show ?thesis
    by (simp add: retryLoad_def stmt_def)
qed

lemma onGameLoadError_retries: "retries_ok s \<Longrightarrow> retries_ok (fst (onGameLoadError E m s))"
  unfolding onGameLoadError_def
  by (rule block_preserves) (auto simp: cmd_defs retryLoad_retries showGameError_retries)

lemma onGameLoadSuccess_retries: "retries_ok s \<Longrightarrow> retries_ok (fst (onGameLoadSuccess E s))"
proof -
  assume ok: "retries_ok s"
  have inner: "retries_ok (fst (block [invoke E (TrackEvent ''Game'' ''load_success'' JUndefined),
                 invoke E (UpdateStatus GameLoadedOk KSuccess)] t))" if "retries_ok t" for t
    using _ that by (rule block_preserves) auto
  have "retries_ok (fst (block
          [stmt (\<lambda>s. s\<lparr>gameLoaded := True\<rparr>),
           stmt (\<lambda>s. s\<lparr>retryCount := 0\<rparr>),
           stmt hideLoadingOverlay,
           stmt showGameLoaded,
           cond (appPresent E)
             (block
                [invoke E (TrackEvent ''Game'' ''load_success'' JUndefined),
                 invoke E (UpdateStatus GameLoadedOk KSuccess)])
             skip,
           stmt (\<lambda>s. snd (setTimeout HideStatusCb 3000 s))] s))"
    using _ ok
    by (rule block_preserves)
      (auto simp: cmd_defs inner hideLoadingOverlay_def showGameLoaded_def
        simp del: block.simps)
  with ok show ?thesis
    by (simp add: onGameLoadSuccess_def cond_def skip_def)
qed

lemma onIframeError_retries: "retries_ok s \<Longrightarrow> retries_ok (fst (onIframeError E s))"
  unfolding onIframeError_def
  by (rule block_preserves) (auto simp: cmd_defs onGameLoadError_retries)

lemma onSrcChange_retries: "retries_ok s \<Longrightarrow> retries_ok (fst (onSrcChange E s))"
  unfolding onSrcChange_def
  by (rule block_preserves) (auto simp: cmd_defs showLoadingState_retries)

lemma forceReload_retries: "retries_ok s \<Longrightarrow> retries_ok (fst (forceReload E ts s))"
  unfolding forceReload_def
  by (rule block_preserves) (auto simp: cmd_defs showLoadingState_retries)

lemma handleGameComplete_retries:
  "retries_ok s \<Longrightarrow> retries_ok (fst (handleGameComplete E d s))"
  unfolding handleGameComplete_def
  by (rule block_preserves) (auto simp: cmd_defs showGameComplete_def Let_def)

lemma dispatch_retries: "retries_ok s \<Longrightarrow> retries_ok (fst (dispatch E d s))"
  by (simp add: dispatch_def Let_def onGameLoadSuccess_retries onGameLoadError_retries
      handleGameComplete_retries handleGameProgress_def cmd_defs)

lemma handleIframeMessage_retries:
  "retries_ok s \<Longrightarrow> retries_ok (fst (handleIframeMessage E ev s))"
proof -
  assume ok: "retries_ok s"
  have "retries_ok (fst (try_catch c (\<lambda>e. stmt (console (ErrorParsingMessage e))) s))"
    if "retries_ok (fst (c s))" for c
    using that by (cases "c s") (simp add: try_catch_def stmt_def split: option.splits)
  with ok dispatch_retries [OF ok] show ?thesis
    by (simp add: handleIframeMessage_def skip_def throw_def split: option.splits)
qed

lemma run_callback_retries: "retries_ok s \<Longrightarrow> retries_ok (fst (run_callback E cb s))"
  by (cases cb)
    (auto simp: run_callback_def cmd_defs onLoadTimeout_def onGameLoadError_retries
      onGameLoadSuccess_retries Let_def split: option.splits)

lemma fire_retries: "retries_ok s \<Longrightarrow> retries_ok (fst (fire E i s))"
  by (auto simp: fire_def run_callback_retries split: option.splits)

lemma step_retries: "retries_ok s \<Longrightarrow> retries_ok (fst (step E ev s))"
  by (cases ev)
    (simp_all add: listening_def cond_def skip_def stmt_def onIframeLoad_def
      onIframeError_retries onSrcChange_retries handleIframeMessage_retries fire_retries
      forceReload_retries)

lemma deliver_retries: "retries_ok s \<Longrightarrow> retries_ok (deliver E evs s)"
  unfolding deliver_def
  by (induction evs arbitrary: s) (simp_all add: step_retries)

lemma new_handler_retries: "retries_ok (new_handler fr ov bar n)"
proof -
  have "retries_ok \<lparr>iframe = f, loadingOverlay = ov, gameLoaded = False, retryCount = 0,
               maxRetries = 3, loadTimeout = None, loadTimeoutDuration = 30000,
               timers = [], nextTimerId = Suc n, statusBar = bar, body = [],
               nextNode = 0, effects = []\<rparr>" for f
    by (simp add: retries_ok_def)
  then show ?thesis
    by (simp add: new_handler_def Let_def)
qed

lemma reachable_retries: "retryCount (deliver E evs (new_handler fr ov bar n)) \<le> 3"
  using deliver_retries [OF new_handler_retries, of E evs fr ov bar n]
  by (simp add: retries_ok_def)

lemma onGameLoadError_summary:
  assumes "maxRetries s = 3"
  shows "retryCount (fst (onGameLoadError E m s)) =
           (if retryCount s < 3 then Suc (retryCount s) else retryCount s)"
    and "maxRetries (fst (onGameLoadError E m s)) = 3"
    and "gameLoaded (fst (onGameLoadError E m s)) = gameLoaded s"
    and "status_updates (effects (fst (onGameLoadError E m s))) =
           status_updates (effects s) @
             (if loveMoneyApp E = None then []
              else [if retryCount s < 3 then (RetryingText (Suc (retryCount s)) 3, KLoading)
                    else (FailedToLoadGame, KError)])"
  using assms
  by (auto simp: onGameLoadError_def retryLoad_def showRetryState_def showGameError_def
      cmd_defs console_def invoke_def appPresent_def if_overlay_def setTimeout_def
      status_updates_append split: option.splits)

lemma fail_reduces:
  "\<exists>m s0. (fst (fail E f s) = fst (onGameLoadError E m s0)
            \<or> (\<exists>e. fst (fail E f s) = console (ErrorParsingMessage e) (fst (onGameLoadError E m s0))))
          \<and> maxRetries s0 = maxRetries s \<and> retryCount s0 = retryCount s
          \<and> gameLoaded s0 = gameLoaded s \<and> effects s0 = effects s"
proof (cases f)
  case EmbedError
  have "fst (fail E f s) = fst (onGameLoadError E (JStr ''Iframe failed to load'') (clearLoadTimeout s))"
    by (simp add: EmbedError onIframeError_def stmt_def split: prod.splits option.splits)
  then show ?thesis
    using clearLoadTimeout_fields by blast
next
  case WaitExpired
  then have "fst (fail E f s) = fst (onGameLoadError E (JStr ''Game loading timed out'') s)"
    by (simp add: onLoadTimeout_def)
  then show ?thesis by blast
next
  case (ReportedError m)
  have "fst (fail E f s) = fst (onGameLoadError E m s)
        \<or> (\<exists>e. fst (fail E f s) = console (ErrorParsingMessage e) (fst (onGameLoadError E m s)))"
    by (cases "onGameLoadError E m s")
      (auto simp: ReportedError handleIframeMessage_def dispatch_def try_catch_def stmt_def
        split: option.splits)
  then show ?thesis by blast
qed

lemma fail_summary:
  assumes "maxRetries s = 3"
  shows "retryCount (fst (fail E f s)) =
           (if retryCount s < 3 then Suc (retryCount s) else retryCount s)
    \<and> maxRetries (fst (fail E f s)) = 3
    \<and> gameLoaded (fst (fail E f s)) = gameLoaded s
    \<and> status_updates (effects (fst (fail E f s))) =
           status_updates (effects s) @
             (if loveMoneyApp E = None then []
              else [if retryCount s < 3 then (RetryingText (Suc (retryCount s)) 3, KLoading)
                    else (FailedToLoadGame, KError)])"
proof -
  from fail_reduces [of E f s] obtain m s0 where
    red: "fst (fail E f s) = fst (onGameLoadError E m s0)
          \<or> (\<exists>e. fst (fail E f s) = console (ErrorParsingMessage e) (fst (onGameLoadError E m s0)))"
    and s0: "maxRetries s0 = maxRetries s" "retryCount s0 = retryCount s"
      "gameLoaded s0 = gameLoaded s" "effects s0 = effects s"
    by blast
  from s0 assms have "maxRetries s0 = 3" by simp
  note sm = onGameLoadError_summary [OF this, of E m]
  from red show ?thesis
  proof
    assume "fst (fail E f s) = fst (onGameLoadError E m s0)"
    with sm s0 show ?thesis by simp
  next
    assume "\<exists>e. fst (fail E f s) = console (ErrorParsingMessage e) (fst (onGameLoadError E m s0))"
    then obtain e where "fst (fail E f s) = console (ErrorParsingMessage e) (fst (onGameLoadError E m s0))" ..
    with sm s0 show ?thesis by (simp add: console_def status_updates_append)
  qed
qed

lemma fail_all_snoc: "fail_all E (fs @ [f]) s = fst (fail E f (fail_all E fs s))"
  by (simp add: fail_all_def)

lemma new_handler_fields:
  "retryCount (new_handler fr ov bar n) = 0"
  "maxRetries (new_handler fr ov bar n) = 3"
  "gameLoaded (new_handler fr ov bar n) = False"
  "effects (new_handler fr ov bar n) = []"
  by (simp_all add: new_handler_def startLoadTimeout_def clearLoadTimeout_def setTimeout_def Let_def)

lemma fail_all_summary:
  assumes "maxRetries s = 3" "retryCount s = 0"
  shows "retryCount (fail_all E fs s) = min (length fs) 3
    \<and> maxRetries (fail_all E fs s) = 3
    \<and> gameLoaded (fail_all E fs s) = gameLoaded s
    \<and> status_updates (effects (fail_all E fs s)) =
         status_updates (effects s) @
           (if loveMoneyApp E = None then [] else map failure_status [0..<length fs])"
proof (induction fs rule: rev_induct)
  case Nil
  with assms show ?case by (simp add: fail_all_def)
next
  case (snoc f fs)
  then have mr: "maxRetries (fail_all E fs s) = 3" by simp
  from fail_summary [OF mr, of E f] snoc show ?case
    by (auto simp: fail_all_snoc failure_status_def min_def)
qed



text \<open>
  The counter is reset by a source change. The retry itself writes \<^verbatim>\<open>src\<close> (the
  callback scheduled by \<open>retryLoad\<close> clears it and a second one restores it); when the
  observer reports such a write, \<open>onSrcChange\<close> puts \<open>retryCount\<close> back to 0. The run
  below is a failure, the firing of the retry's timer and the source change reported
  for its write.
\<close>

lemma retry_write_then_src_change:
  "lifecycle (deliver game_env [IframeError, TimerFired 2] game_page) = (False, 1)
   \<and> map_option src (iframe (deliver game_env [IframeError, TimerFired 2] game_page)) = Some []
   \<and> lifecycle (deliver game_env [IframeError, TimerFired 2, SrcChanged] game_page) = (False, 0)"
  by (simp add: lifecycle_def game_page_def new_handler_def startLoadTimeout_def
      clearLoadTimeout_def clearTimeout_def setTimeout_def listening_def onIframeError_def
      onGameLoadError_def retryLoad_def showRetryState_def cmd_defs console_def invoke_def
      appPresent_def if_overlay_def if_iframe_def game_env_def page_env_def LoveMoneyApp_def
      deliver_def fire_def run_callback_def onSrcChange_def showLoadingState_def)

subsection \<open>Two failures, then success\<close>



end
